theory Spec2Isabelle
  imports Main
begin

section \<open>Python values, exceptions and module results\<close>

text \<open>
  The modules handle JSON-like values: the entries of \<open>module.params\<close>, the dictionaries
  the SDK returns, and \<open>None\<close>.
\<close>

datatype pyval =
    PNone
  | PBool bool
  | PInt int
  | PStr string
  | PList "pyval list"
  | PDict "(string \<times> pyval) list"

text \<open>Python truthiness, as used by \<open>if x\<close>, \<open>not x\<close>, \<open>a or b\<close> and \<open>True if x else False\<close>.\<close>

fun truthy :: "pyval \<Rightarrow> bool" where
  "truthy PNone = False"
| "truthy (PBool b) = b"
| "truthy (PInt i) = (i \<noteq> 0)"
| "truthy (PStr s) = (s \<noteq> [])"
| "truthy (PList xs) = (xs \<noteq> [])"
| "truthy (PDict d) = (d \<noteq> [])"

text \<open>
  Exceptions that derive from \<open>Exception\<close>: the ones Python itself raises in these modules
  (subscripting a non-dictionary, a missing key, a call with a missing argument, an unbound
  local), and whatever the SDK or a helper raises.
\<close>

datatype exn = TypeError | KeyError string | NameError | SdkError string

text \<open>
  The message of \<open>fail_json\<close>: a literal, a literal with one \<open>%s\<close> and its argument, or
  \<open>str(ex)\<close> of a caught exception.
\<close>

datatype msg = Text string | Fmt string pyval | Str exn

text \<open>A name between single quotes, as the messages of \<open>main\<close> print it.\<close>

definition quoted :: "string \<Rightarrow> string" where
  "quoted s = CHR 0x27 # s @ [CHR 0x27]"

text \<open>
  How a run of a module ends. \<open>exit_json(changed=c)\<close> is \<open>ExitJson c None\<close>,
  \<open>exit_json(changed=c, <kind>=r)\<close> is \<open>ExitJson c (Some r)\<close>, \<open>fail_json(msg=t)\<close> is
  \<open>FailJson t\<close>. \<open>Uncaught\<close> is an exception that leaves \<open>main\<close>; \<open>NoExit\<close> is
  \<open>main\<close> returning without either call.
\<close>

datatype outcome = ExitJson pyval "pyval option" | FailJson msg | Uncaught exn | NoExit

text \<open>The members of \<open>OneAndOneResources\<close> that the three modules pass to the waiter.\<close>

datatype resource_kind = block_storage_kind | shared_storage_kind | ssh_key_kind

section \<open>Remote calls\<close>

text \<open>
  Every call that leaves the module: the methods of the SDK connection, and the helpers of
  \<open>ansible.module_utils.oneandone\<close> (\<open>get_block_storage\<close>, \<open>get_server\<close>,
  \<open>get_shared_storage\<close>, \<open>get_shared_storage_server\<close>, \<open>get_ssh_key\<close>,
  \<open>wait_for_resource_creation_completion\<close>), which only read. The helpers are not among
  the sources, so their answers are a parameter: the connection below answers them like
  any other call. Each constructor carries the arguments in the order of the source.
\<close>

datatype sdk_call =
    GetBlockStorage pyval bool
  | GetServer pyval
  | ModifyBlockStorage pyval pyval pyval
  | AttachBlockStorage pyval pyval
  | DetachBlockStorage pyval
  | CreateBlockStorage pyval pyval pyval pyval pyval
  | DeleteBlockStorage pyval
  | WaitForCompletion resource_kind pyval pyval pyval
  | GetSharedStorage pyval bool
  | GetSharedStorageServer pyval pyval
  | ModifySharedStorage pyval pyval pyval pyval
  | ChangePassword pyval
  | AttachServerSharedStorage pyval pyval
  | DetachServerSharedStorage pyval pyval
  | CreateSharedStorage pyval pyval pyval pyval
  | DeleteSharedStorage pyval
  | GetSshKeyHelper pyval bool
  | GetSshKey pyval
  | CreateSshKey pyval pyval pyval
  | ModifySshKey pyval pyval pyval
  | DeleteSshKey pyval

text \<open>The calls that create, modify, delete, attach or detach a remote resource.\<close>

fun mutating :: "sdk_call \<Rightarrow> bool" where
  "mutating (ModifyBlockStorage _ _ _) = True"
| "mutating (AttachBlockStorage _ _) = True"
| "mutating (DetachBlockStorage _) = True"
| "mutating (CreateBlockStorage _ _ _ _ _) = True"
| "mutating (DeleteBlockStorage _) = True"
| "mutating (ModifySharedStorage _ _ _ _) = True"
| "mutating (ChangePassword _) = True"
| "mutating (AttachServerSharedStorage _ _) = True"
| "mutating (DetachServerSharedStorage _ _) = True"
| "mutating (CreateSharedStorage _ _ _ _) = True"
| "mutating (DeleteSharedStorage _) = True"
| "mutating (CreateSshKey _ _ _) = True"
| "mutating (ModifySshKey _ _ _) = True"
| "mutating (DeleteSshKey _) = True"
| "mutating _ = False"

text \<open>
  The trace is the list of calls issued so far, oldest first. The connection answers a
  call with a value or with an exception; its answer may depend on everything issued
  before, which covers any state the provider keeps.
\<close>

type_synonym trace = "sdk_call list"

type_synonym conn = "trace \<Rightarrow> sdk_call \<Rightarrow> exn + pyval"

section \<open>Control flow\<close>

text \<open>
  A statement returns a value, raises an exception that \<open>except Exception\<close> catches, or
  ends the process: \<open>exit_json\<close> and \<open>fail_json\<close> raise \<open>SystemExit\<close>, which is not an
  \<open>Exception\<close> and passes every handler of these modules.
\<close>

datatype 'a res = Ret 'a | Raise exn | Exit outcome

type_synonym 'a prog = "trace \<Rightarrow> 'a res \<times> trace"

definition ret :: "'a \<Rightarrow> 'a prog" where
  "ret x = (\<lambda>tr. (Ret x, tr))"

definition raise :: "exn \<Rightarrow> 'a prog" where
  "raise e = (\<lambda>tr. (Raise e, tr))"

definition exit_json :: "pyval \<Rightarrow> pyval option \<Rightarrow> 'a prog" where
  "exit_json c r = (\<lambda>tr. (Exit (ExitJson c r), tr))"

definition fail_json :: "msg \<Rightarrow> 'a prog" where
  "fail_json t = (\<lambda>tr. (Exit (FailJson t), tr))"

definition bnd :: "'a prog \<Rightarrow> ('a \<Rightarrow> 'b prog) \<Rightarrow> 'b prog" where
  "bnd p f = (\<lambda>tr. case p tr of
       (Ret x, tr') \<Rightarrow> f x tr'
     | (Raise e, tr') \<Rightarrow> (Raise e, tr')
     | (Exit out, tr') \<Rightarrow> (Exit out, tr'))"

definition try_except :: "'a prog \<Rightarrow> (exn \<Rightarrow> 'a prog) \<Rightarrow> 'a prog" where
  "try_except p h = (\<lambda>tr. case p tr of
       (Raise e, tr') \<Rightarrow> h e tr'
     | (Ret x, tr') \<Rightarrow> (Ret x, tr')
     | (Exit out, tr') \<Rightarrow> (Exit out, tr'))"

definition call :: "conn \<Rightarrow> sdk_call \<Rightarrow> pyval prog" where
  "call cn c = (\<lambda>tr. (case cn tr c of Inl e \<Rightarrow> Raise e | Inr v \<Rightarrow> Ret v, tr @ [c]))"

text \<open>\<open>v[k]\<close> for a string key: only a dictionary that has the key answers.\<close>

definition getitem :: "pyval \<Rightarrow> string \<Rightarrow> exn + pyval" where
  "getitem v k = (case v of
       PDict d \<Rightarrow> (case map_of d k of Some x \<Rightarrow> Inr x | None \<Rightarrow> Inl (KeyError k))
     | _ \<Rightarrow> Inl TypeError)"

definition subscript :: "pyval \<Rightarrow> string \<Rightarrow> pyval prog" where
  "subscript v k = (case getitem v k of Inl e \<Rightarrow> raise e | Inr x \<Rightarrow> ret x)"

text \<open>Running \<open>main\<close> from the empty trace.\<close>

definition finish :: "unit prog \<Rightarrow> outcome \<times> trace" where
  "finish p = (case p [] of
       (Exit out, tr) \<Rightarrow> (out, tr)
     | (Raise e, tr) \<Rightarrow> (Uncaught e, tr)
     | (Ret _, tr) \<Rightarrow> (NoExit, tr))"

section \<open>The module object\<close>

text \<open>
  \<open>module.check_mode\<close> and \<open>module.params\<close>, the latter as the host framework leaves it
  after parsing and defaults; \<open>module.params.get(k)\<close> is \<open>params m k\<close>, \<open>PNone\<close> for a
  parameter that was not given and has no default.
\<close>

record ansible_module =
  check_mode :: bool
  params :: "string \<Rightarrow> pyval"

text \<open>
  The constructor \<open>AnsibleModule(argument_spec, supports_check_mode, mutually_exclusive,
  required_together)\<close> belongs to the host framework. Its verdict on the parameters is a
  parameter of the model: given the declared \<open>mutually_exclusive\<close> and
  \<open>required_together\<close> groups it accepts (\<open>None\<close>) or fails with a message.
\<close>

type_synonym framework = "string list list \<Rightarrow> string list list \<Rightarrow> ansible_module \<Rightarrow> msg option"

definition AnsibleModule ::
  "framework \<Rightarrow> string list list \<Rightarrow> string list list \<Rightarrow> ansible_module \<Rightarrow> unit prog" where
  "AnsibleModule fw excl together m =
     (case fw excl together m of Some t \<Rightarrow> fail_json t | None \<Rightarrow> ret ())"

text \<open>\<open>_check_mode(module, result)\<close>, the same function in all three modules.\<close>

definition p_check_mode :: "ansible_module \<Rightarrow> pyval \<Rightarrow> unit prog" where
  "p_check_mode m result = (if check_mode m then exit_json result None else ret ())"

text \<open>
  The loop \<open>for param in (...): if not module.params.get(param): module.fail_json(...)\<close>
  of the \<open>present\<close> branch of \<open>main\<close>.
\<close>

fun require_params :: "ansible_module \<Rightarrow> string \<Rightarrow> string list \<Rightarrow> unit prog" where
  "require_params m fmt [] = ret ()"
| "require_params m fmt (p # ps) =
     bnd (if \<not> truthy (params m p) then fail_json (Fmt fmt (PStr p)) else ret ())
       (\<lambda>_. require_params m fmt ps)"

section \<open>oneandone_block_storage\<close>

text \<open>\<open>_attach_block_storage\<close>\<close>

definition p_attach_block_storage ::
  "ansible_module \<Rightarrow> conn \<Rightarrow> pyval \<Rightarrow> pyval \<Rightarrow> pyval prog" where
  "p_attach_block_storage m cn block_storage_id server_id =
     try_except (call cn (AttachBlockStorage block_storage_id server_id))
       (\<lambda>ex. fail_json (Str ex))"

text \<open>\<open>_detach_block_storage\<close>\<close>

definition p_detach_block_storage :: "ansible_module \<Rightarrow> conn \<Rightarrow> pyval \<Rightarrow> pyval prog" where
  "p_detach_block_storage m cn block_storage_id =
     try_except (call cn (DetachBlockStorage block_storage_id))
       (\<lambda>ex. fail_json (Str ex))"

text \<open>
  \<open>update_block_storage\<close>. The locals \<open>changed\<close> and \<open>block_storage\<close> are threaded
  through the three optional steps as a pair.
\<close>

definition update_block_storage :: "ansible_module \<Rightarrow> conn \<Rightarrow> (pyval \<times> pyval) prog" where
  "update_block_storage m cn =
     try_except
      (let block_storage_id = params m ''block_storage'';
           name = params m ''name'';
           description = params m ''description'';
           server_id = params m ''server_id'';
           attach = params m ''attach'';
           detach = params m ''detach''
       in
       bnd (call cn (GetBlockStorage block_storage_id True)) (\<lambda>bs0.
       bnd (if bs0 = PNone then p_check_mode m (PBool False) else ret ()) (\<lambda>_.
       bnd (if truthy name \<or> truthy description then
              bnd (p_check_mode m (PBool True)) (\<lambda>_.
              bnd (subscript bs0 ''id'') (\<lambda>i.
              bnd (call cn (ModifyBlockStorage i name description)) (\<lambda>bs.
              ret (True, bs))))
            else ret (False, bs0)) (\<lambda>(changed1, bs1).
       bnd (if truthy attach then
              bnd (if check_mode m then
                     bnd (call cn (GetServer server_id)) (\<lambda>server.
                     p_check_mode m server)
                   else ret ()) (\<lambda>_.
              bnd (subscript bs1 ''id'') (\<lambda>i.
              bnd (p_attach_block_storage m cn i server_id) (\<lambda>bs.
              ret (True, bs))))
            else ret (changed1, bs1)) (\<lambda>(changed2, bs2).
       bnd (if truthy detach then
              bnd (p_check_mode m (PBool True)) (\<lambda>_.
              bnd (subscript bs2 ''id'') (\<lambda>i.
              bnd (p_detach_block_storage m cn i) (\<lambda>_.
              bnd (p_check_mode m (PBool False)) (\<lambda>_.
              bnd (subscript bs2 ''id'') (\<lambda>i'.
              bnd (call cn (GetBlockStorage i' True)) (\<lambda>bs.
              ret (True, bs)))))))
            else ret (changed2, bs2)) (\<lambda>(changed3, bs3).
       ret (PBool changed3, bs3)))))))
      (\<lambda>ex. fail_json (Str ex))"

text \<open>
  \<open>create_block_storage\<close>. \<open>oneandone.client.BlockStorage(...)\<close> only builds the request
  object; its five fields travel with the create call.
\<close>

definition create_block_storage :: "ansible_module \<Rightarrow> conn \<Rightarrow> (pyval \<times> pyval) prog" where
  "create_block_storage m cn =
     try_except
      (let name = params m ''name'';
           description = params m ''description'';
           size = params m ''size'';
           server_id = params m ''server_id'';
           datacenter_id = params m ''datacenter_id'';
           wait = params m ''wait'';
           wait_timeout = params m ''wait_timeout'';
           wait_interval = params m ''wait_interval''
       in
       bnd (p_check_mode m (PBool True)) (\<lambda>_.
       bnd (call cn (CreateBlockStorage name description size datacenter_id server_id)) (\<lambda>bs.
       bnd (if truthy wait then
              bnd (subscript bs ''id'') (\<lambda>i.
              bnd (call cn (WaitForCompletion block_storage_kind i wait_timeout wait_interval))
                (\<lambda>_. ret ()))
            else ret ()) (\<lambda>_.
       bnd (p_check_mode m (PBool False)) (\<lambda>_.
       ret (PBool (truthy bs), bs))))))
      (\<lambda>ex. fail_json (Str ex))"

text \<open>\<open>remove_block_storage\<close>\<close>

definition remove_block_storage :: "ansible_module \<Rightarrow> conn \<Rightarrow> (pyval \<times> pyval) prog" where
  "remove_block_storage m cn =
     try_except
      (let blkst_id = params m ''name'' in
       bnd (call cn (GetBlockStorage blkst_id False)) (\<lambda>block_storage_id.
       bnd (if check_mode m then
              bnd (if block_storage_id = PNone then p_check_mode m (PBool False) else ret ())
                (\<lambda>_. p_check_mode m (PBool True))
            else ret ()) (\<lambda>_.
       bnd (call cn (DeleteBlockStorage block_storage_id)) (\<lambda>bs.
       bnd (subscript bs ''id'') (\<lambda>i.
       bnd (subscript bs ''name'') (\<lambda>n.
       ret (PBool (truthy bs), PDict [(''id'', i), (''name'', n)])))))))
      (\<lambda>ex. fail_json (Str ex))"

text \<open>
  \<open>main\<close> of \<open>oneandone_block_storage\<close>. \<open>has_sdk\<close> is \<open>HAS_ONEANDONE_SDK\<close>. A
  \<open>state\<close> outside the three choices reaches the final \<open>exit_json\<close> with \<open>changed\<close>
  unbound.
\<close>

definition main_block_storage ::
  "framework \<Rightarrow> bool \<Rightarrow> ansible_module \<Rightarrow> conn \<Rightarrow> outcome \<times> trace" where
  "main_block_storage fw has_sdk m cn = finish
     (bnd (AnsibleModule fw [[''attach'', ''detach'']] [[''attach'', ''server_id'']] m) (\<lambda>_.
      bnd (if \<not> has_sdk then fail_json (Text ''1and1 required for this module'') else ret ())
        (\<lambda>_.
      bnd (if \<not> truthy (params m ''auth_token'')
           then fail_json (Text ''auth_token parameter is required.'') else ret ()) (\<lambda>_.
      bnd (let state = params m ''state'' in
           if state = PStr ''absent'' then
             bnd (if \<not> truthy (params m ''name'')
                  then fail_json
                    (Text (quoted ''name'' @ '' parameter is required to delete a block storage.''))
                  else ret ()) (\<lambda>_.
             try_except (remove_block_storage m cn) (\<lambda>ex. fail_json (Str ex)))
           else if state = PStr ''update'' then
             bnd (if \<not> truthy (params m ''block_storage'')
                  then fail_json
                    (Text (quoted ''block_storage'' @ '' parameter is required to update a block storage.''))
                  else ret ()) (\<lambda>_.
             try_except (update_block_storage m cn) (\<lambda>ex. fail_json (Str ex)))
           else if state = PStr ''present'' then
             bnd (require_params m ''%s parameter is required for a new block storage.''
                    [''name'', ''size'']) (\<lambda>_.
             try_except (create_block_storage m cn) (\<lambda>ex. fail_json (Str ex)))
           else raise NameError) (\<lambda>(changed, block_storage).
      exit_json changed (Some block_storage))))))"

section \<open>oneandone_shared_storage\<close>

text \<open>\<open>_attach_shared_storage\<close>\<close>

definition p_attach_shared_storage ::
  "ansible_module \<Rightarrow> conn \<Rightarrow> pyval \<Rightarrow> pyval \<Rightarrow> pyval prog" where
  "p_attach_shared_storage m cn shared_storage_id servers =
     try_except (call cn (AttachServerSharedStorage shared_storage_id servers))
       (\<lambda>ex. fail_json (Str ex))"

text \<open>\<open>_detach_shared_storage\<close>, which takes four positional parameters.\<close>

definition p_detach_shared_storage ::
  "ansible_module \<Rightarrow> conn \<Rightarrow> pyval \<Rightarrow> pyval \<Rightarrow> pyval prog" where
  "p_detach_shared_storage m cn shared_storage_id server_id =
     try_except (call cn (DetachServerSharedStorage shared_storage_id server_id))
       (\<lambda>ex. fail_json (Str ex))"

text \<open>
  A call that passes fewer positional arguments than the function requires: Python
  evaluates the arguments that are there, then raises \<open>TypeError\<close> before the body runs.
\<close>

definition missing_argument :: "'a prog" where
  "missing_argument = raise TypeError"

text \<open>
  \<open>update_shared_storage\<close>. Its detach step calls
  \<open>_detach_shared_storage(module, oneandone_conn, shared_storage['id'])\<close>: three arguments
  for the four parameters of \<open>p_detach_shared_storage\<close>.
\<close>

definition update_shared_storage :: "ansible_module \<Rightarrow> conn \<Rightarrow> (pyval \<times> pyval) prog" where
  "update_shared_storage m cn =
     try_except
      (let shared_storage_id = params m ''shared_storage'';
           name = params m ''name'';
           description = params m ''description'';
           size = params m ''size'';
           servers = params m ''servers'';
           server_id = params m ''server_id'';
           password = params m ''password'';
           attach = params m ''attach'';
           detach = params m ''detach''
       in
       bnd (call cn (GetSharedStorage shared_storage_id True)) (\<lambda>ss0.
       bnd (if ss0 = PNone then p_check_mode m (PBool False) else ret ()) (\<lambda>_.
       bnd (if truthy name \<or> truthy description \<or> truthy size then
              bnd (p_check_mode m (PBool True)) (\<lambda>_.
              bnd (subscript ss0 ''id'') (\<lambda>i.
              bnd (call cn (ModifySharedStorage i name description size)) (\<lambda>ss.
              ret (True, ss))))
            else ret (False, ss0)) (\<lambda>(changed1, ss1).
       bnd (if truthy password then
              bnd (p_check_mode m (PBool True)) (\<lambda>_.
              bnd (call cn (ChangePassword password)) (\<lambda>ss.
              ret (True, ss)))
            else ret (changed1, ss1)) (\<lambda>(changed2, ss2).
       bnd (if truthy attach then
              bnd (if check_mode m then p_check_mode m servers else ret ()) (\<lambda>_.
              bnd (subscript ss2 ''id'') (\<lambda>i.
              bnd (p_attach_shared_storage m cn i servers) (\<lambda>ss.
              ret (True, ss))))
            else ret (changed2, ss2)) (\<lambda>(changed3, ss3).
       bnd (if truthy detach then
              bnd (if check_mode m then
                     bnd (call cn (GetSharedStorageServer ss3 server_id)) (\<lambda>ss_server.
                     p_check_mode m ss_server)
                   else ret ()) (\<lambda>_.
              bnd (subscript ss3 ''id'') (\<lambda>i.
              bnd (missing_argument :: pyval prog) (\<lambda>_.
              bnd (p_check_mode m (PBool False)) (\<lambda>_.
              bnd (subscript ss3 ''id'') (\<lambda>i'.
              bnd (call cn (GetSharedStorage i' True)) (\<lambda>ss.
              ret (True, ss)))))))
            else ret (changed3, ss3)) (\<lambda>(changed4, ss4).
       ret (PBool changed4, ss4))))))))
      (\<lambda>ex. fail_json (Str ex))"

text \<open>\<open>create_shared_storage\<close>\<close>

definition create_shared_storage :: "ansible_module \<Rightarrow> conn \<Rightarrow> (pyval \<times> pyval) prog" where
  "create_shared_storage m cn =
     try_except
      (let name = params m ''name'';
           description = params m ''description'';
           size = params m ''size'';
           datacenter_id = params m ''datacenter_id'';
           wait = params m ''wait'';
           wait_timeout = params m ''wait_timeout'';
           wait_interval = params m ''wait_interval''
       in
       bnd (p_check_mode m (PBool True)) (\<lambda>_.
       bnd (call cn (CreateSharedStorage name description size datacenter_id)) (\<lambda>ss.
       bnd (if truthy wait then
              bnd (subscript ss ''id'') (\<lambda>i.
              bnd (call cn (WaitForCompletion shared_storage_kind i wait_timeout wait_interval))
                (\<lambda>_. ret ()))
            else ret ()) (\<lambda>_.
       bnd (p_check_mode m (PBool False)) (\<lambda>_.
       ret (PBool (truthy ss), ss))))))
      (\<lambda>ex. fail_json (Str ex))"

text \<open>\<open>remove_shared_storage\<close>\<close>

definition remove_shared_storage :: "ansible_module \<Rightarrow> conn \<Rightarrow> (pyval \<times> pyval) prog" where
  "remove_shared_storage m cn =
     try_except
      (let ss_id = params m ''name'' in
       bnd (call cn (GetSharedStorage ss_id False)) (\<lambda>shared_storage_id.
       bnd (if check_mode m then
              bnd (if shared_storage_id = PNone then p_check_mode m (PBool False) else ret ())
                (\<lambda>_. p_check_mode m (PBool True))
            else ret ()) (\<lambda>_.
       bnd (call cn (DeleteSharedStorage shared_storage_id)) (\<lambda>ss.
       bnd (subscript ss ''id'') (\<lambda>i.
       bnd (subscript ss ''name'') (\<lambda>n.
       ret (PBool (truthy ss), PDict [(''id'', i), (''name'', n)])))))))
      (\<lambda>ex. fail_json (Str ex))"

text \<open>\<open>main\<close> of \<open>oneandone_shared_storage\<close>.\<close>

definition main_shared_storage ::
  "framework \<Rightarrow> bool \<Rightarrow> ansible_module \<Rightarrow> conn \<Rightarrow> outcome \<times> trace" where
  "main_shared_storage fw has_sdk m cn = finish
     (bnd (AnsibleModule fw [[''attach'', ''detach'']]
             [[''attach'', ''servers''], [''detach'', ''server_id'']] m) (\<lambda>_.
      bnd (if \<not> has_sdk then fail_json (Text ''1and1 required for this module'') else ret ())
        (\<lambda>_.
      bnd (if \<not> truthy (params m ''auth_token'')
           then fail_json (Text ''auth_token parameter is required.'') else ret ()) (\<lambda>_.
      bnd (let state = params m ''state'' in
           if state = PStr ''absent'' then
             bnd (if \<not> truthy (params m ''name'')
                  then fail_json
                    (Text (quoted ''name'' @ '' parameter is required to delete a shared storage.''))
                  else ret ()) (\<lambda>_.
             try_except (remove_shared_storage m cn) (\<lambda>ex. fail_json (Str ex)))
           else if state = PStr ''update'' then
             bnd (if \<not> truthy (params m ''shared_storage'')
                  then fail_json
                    (Text (quoted ''shared_storage''
                       @ '' parameter is required to update a shared storage.''))
                  else ret ()) (\<lambda>_.
             try_except (update_shared_storage m cn) (\<lambda>ex. fail_json (Str ex)))
           else if state = PStr ''present'' then
             bnd (require_params m ''%s parameter is required for a new shared storage.''
                    [''name'', ''size'']) (\<lambda>_.
             try_except (create_shared_storage m cn) (\<lambda>ex. fail_json (Str ex)))
           else raise NameError) (\<lambda>(changed, shared_storage).
      exit_json changed (Some shared_storage))))))"

section \<open>oneandone_ssh_key\<close>

text \<open>
  \<open>create_ssh_key\<close>. \<open>oneandone.client.SshKey(...)\<close> only builds the request object; its
  three fields travel with the create call.
\<close>

definition create_ssh_key :: "ansible_module \<Rightarrow> conn \<Rightarrow> (pyval \<times> pyval) prog" where
  "create_ssh_key m cn =
     (let name = params m ''name'';
          description = params m ''description'';
          public_key = params m ''public_key'';
          wait = params m ''wait'';
          wait_timeout = params m ''wait_timeout'';
          wait_interval = params m ''wait_interval''
      in
      try_except
       (bnd (p_check_mode m name) (\<lambda>_.
        bnd (call cn (CreateSshKey name description public_key)) (\<lambda>k0.
        bnd (if truthy wait then
               bnd (subscript k0 ''id'') (\<lambda>i.
               bnd (call cn (WaitForCompletion ssh_key_kind i wait_timeout wait_interval)) (\<lambda>_.
               bnd (subscript k0 ''id'') (\<lambda>i'.
               call cn (GetSshKey i'))))
             else ret k0) (\<lambda>ssh_key.
        ret (PBool (truthy ssh_key), ssh_key)))))
       (\<lambda>e. fail_json (Str e)))"

text \<open>\<open>update_ssh_key\<close>. The lookup and the not-found test stand before the \<open>try\<close>.\<close>

definition update_ssh_key :: "ansible_module \<Rightarrow> conn \<Rightarrow> (pyval \<times> pyval) prog" where
  "update_ssh_key m cn =
     (let ssh_key_id = params m ''ssh_key'';
          name = params m ''name'';
          description = params m ''description'';
          wait = params m ''wait'';
          wait_timeout = params m ''wait_timeout'';
          wait_interval = params m ''wait_interval''
      in
      bnd (call cn (GetSshKeyHelper ssh_key_id True)) (\<lambda>k.
      bnd (if k = PNone then
             bnd (p_check_mode m (PBool False)) (\<lambda>_.
             fail_json (Fmt ''SSH key %s not found.'' ssh_key_id))
           else ret ()) (\<lambda>_.
      try_except
       (bnd (p_check_mode m (PBool True)) (\<lambda>_.
        bnd (subscript k ''id'') (\<lambda>i.
        bnd (call cn (ModifySshKey i name description)) (\<lambda>k0.
        bnd (if truthy wait then
               bnd (subscript k0 ''id'') (\<lambda>i0.
               bnd (call cn (WaitForCompletion ssh_key_kind i0 wait_timeout wait_interval)) (\<lambda>_.
               bnd (subscript k0 ''id'') (\<lambda>i'.
               call cn (GetSshKey i'))))
             else ret k0) (\<lambda>ssh_key.
        ret (PBool (truthy ssh_key), ssh_key))))))
       (\<lambda>e. fail_json (Str e)))))"

text \<open>\<open>delete_ssh_key\<close>\<close>

definition delete_ssh_key :: "ansible_module \<Rightarrow> conn \<Rightarrow> (pyval \<times> pyval) prog" where
  "delete_ssh_key m cn =
     (let ssh_key_id = params m ''ssh_key_id'' in
      bnd (call cn (GetSshKeyHelper ssh_key_id True)) (\<lambda>k.
      bnd (if k = PNone then
             bnd (p_check_mode m (PBool False)) (\<lambda>_.
             fail_json (Fmt ''SSH key %s not found.'' ssh_key_id))
           else ret ()) (\<lambda>_.
      try_except
       (bnd (p_check_mode m (PBool True)) (\<lambda>_.
        bnd (subscript k ''id'') (\<lambda>i.
        bnd (call cn (DeleteSshKey i)) (\<lambda>deleted_ssh_key.
        bnd (subscript deleted_ssh_key ''id'') (\<lambda>i'.
        bnd (subscript deleted_ssh_key ''name'') (\<lambda>n.
        ret (PBool (truthy deleted_ssh_key), PDict [(''id'', i'), (''name'', n)])))))))
       (\<lambda>e. fail_json (Str e)))))"

text \<open>
  \<open>main\<close> of \<open>oneandone_ssh_key\<close>. It declares no parameter groups, and its \<open>update\<close>
  branch tests \<open>ssh_key_id\<close> although \<open>update_ssh_key\<close> reads \<open>ssh_key\<close>.
\<close>

definition main_ssh_key ::
  "framework \<Rightarrow> bool \<Rightarrow> ansible_module \<Rightarrow> conn \<Rightarrow> outcome \<times> trace" where
  "main_ssh_key fw has_sdk m cn = finish
     (bnd (AnsibleModule fw [] [] m) (\<lambda>_.
      bnd (if \<not> has_sdk then fail_json (Text ''1and1 required for this module'') else ret ())
        (\<lambda>_.
      bnd (if \<not> truthy (params m ''auth_token'')
           then fail_json (Text ''auth_token parameter is required.'') else ret ()) (\<lambda>_.
      bnd (let state = params m ''state'' in
           if state = PStr ''absent'' then
             bnd (if \<not> truthy (params m ''ssh_key_id'')
                  then fail_json
                    (Text (quoted ''ssh_key_id'' @ '' parameter is required to delete a SSH key.''))
                  else ret ()) (\<lambda>_.
             try_except (delete_ssh_key m cn) (\<lambda>e. fail_json (Str e)))
           else if state = PStr ''update'' then
             bnd (if \<not> truthy (params m ''ssh_key_id'')
                  then fail_json
                    (Text (quoted ''ssh_key_id'' @ '' parameter is required to update a SSH key.''))
                  else ret ()) (\<lambda>_.
             try_except (update_ssh_key m cn) (\<lambda>e. fail_json (Str e)))
           else if state = PStr ''present'' then
             try_except (create_ssh_key m cn) (\<lambda>e. fail_json (Str e))
           else raise NameError) (\<lambda>(changed, ssh_key).
      exit_json changed (Some ssh_key))))))"

section \<open>Invocations\<close>

text \<open>
  \<open>module.params\<close> built from the dictionary of the parameters that were given, a
  framework verdict that accepts every parameter set, and a provider whose every answer
  is \<open>None\<close>: its lookups find nothing.
\<close>

definition params_of :: "(string \<times> pyval) list \<Rightarrow> string \<Rightarrow> pyval" where
  "params_of d k = (case map_of d k of Some v \<Rightarrow> v | None \<Rightarrow> PNone)"

definition accepting :: framework where
  "accepting excl together m = None"

definition answer_none :: conn where
  "answer_none tr c = Inr PNone"

text \<open>\<open>state: absent\<close> with \<open>ssh_key_id: k1\<close>, with and without check mode.\<close>

definition absent_k1 :: "bool \<Rightarrow> ansible_module" where
  "absent_k1 chk = \<lparr>check_mode = chk, params = params_of
     [(''auth_token'', PStr ''t''), (''state'', PStr ''absent''), (''ssh_key_id'', PStr ''k1'')]\<rparr>"

text \<open>An invocation from its check-mode flag and the dictionary of its parameters.\<close>

definition invocation :: "bool \<Rightarrow> (string \<times> pyval) list \<Rightarrow> ansible_module" where
  "invocation chk d = \<lparr>check_mode = chk, params = params_of d\<rparr>"

text \<open>
  A provider that answers every call with the same resource, and one that does so except
  that it refuses every attach call.
\<close>

definition resource_r1 :: pyval where
  "resource_r1 = PDict [(''id'', PStr ''r1''), (''name'', PStr ''x'')]"

definition answer_found :: conn where
  "answer_found tr c = Inr resource_r1"

definition attach_refused :: conn where
  "attach_refused tr c = (case c of
       AttachBlockStorage _ _ \<Rightarrow> Inl (SdkError ''attach refused'')
     | AttachServerSharedStorage _ _ \<Rightarrow> Inl (SdkError ''attach refused'')
     | _ \<Rightarrow> Inr resource_r1)"

text \<open>
  The parameters that the sample invocations below share, per module: the token, the
  server identifiers, and the defaults that the argument specification declares. A
  parameter given in front of them takes precedence.
\<close>

definition servers_s1 :: pyval where
  "servers_s1 = PList [PDict [(''id'', PStr ''s1''), (''rights'', PStr ''R'')]]"

definition block_base :: "(string \<times> pyval) list" where
  "block_base = [(''auth_token'', PStr ''t''), (''server_id'', PStr ''s1''),
     (''attach'', PBool False), (''detach'', PBool False), (''wait'', PBool True),
     (''wait_timeout'', PInt 600), (''wait_interval'', PInt 5)]"

definition shared_base :: "(string \<times> pyval) list" where
  "shared_base = [(''auth_token'', PStr ''t''), (''servers'', servers_s1),
     (''server_id'', PStr ''s1''), (''attach'', PBool False), (''detach'', PBool False),
     (''wait'', PBool True), (''wait_timeout'', PInt 600), (''wait_interval'', PInt 5)]"

definition ssh_key_base :: "(string \<times> pyval) list" where
  "ssh_key_base = [(''auth_token'', PStr ''t''), (''wait'', PBool True),
     (''wait_timeout'', PInt 600), (''wait_interval'', PInt 5)]"

section \<open>Properties of outcomes and calls\<close>


text \<open>The remote attach calls of the two storage modules.\<close>

fun is_attach :: "sdk_call \<Rightarrow> bool" where
  "is_attach (AttachBlockStorage _ _) = True"
| "is_attach (AttachServerSharedStorage _ _) = True"
| "is_attach _ = False"

section \<open>Mutually exclusive parameters\<close>

text \<open>
  What the storage modules rely on when they declare
  \<open>mutually_exclusive=(['attach', 'detach'],)\<close>: a framework that rejects a parameter set
  in which more than one member of a declared group is set. \<open>exclusive_only\<close> is a
  framework that checks this and nothing else.
\<close>

definition requested :: "ansible_module \<Rightarrow> string \<Rightarrow> bool" where
  "requested m p = truthy (params m p)"

definition rejects_exclusive :: "framework \<Rightarrow> bool" where
  "rejects_exclusive fw = (\<forall>excl together m. \<forall>g \<in> set excl.
       1 < length (filter (requested m) g) \<longrightarrow> fw excl together m \<noteq> None)"

definition exclusive_only :: framework where
  "exclusive_only excl together m =
     (if list_ex (\<lambda>g. 1 < length (filter (requested m) g)) excl
      then Some (Text ''parameters are mutually exclusive'') else None)"

section \<open>The completion waiter\<close>




section \<open>Postconditions of a run\<close>

text \<open>
  \<open>post p Q tr\<close>: started after the calls \<open>tr\<close>, the statement \<open>p\<close> ends in a result and
  a trace that satisfy \<open>Q\<close>.
\<close>

definition post :: "'a prog \<Rightarrow> ('a res \<Rightarrow> trace \<Rightarrow> bool) \<Rightarrow> trace \<Rightarrow> bool" where
  "post p Q tr = (case p tr of (r, tr') \<Rightarrow> Q r tr')"

section \<open>Rules for postconditions\<close>

lemma post_ret: "post (ret x) Q tr = Q (Ret x) tr"
  by (simp add: post_def ret_def)

lemma post_raise: "post (raise e) Q tr = Q (Raise e) tr"
  by (simp add: post_def raise_def)

lemma post_exit_json: "post (exit_json c r) Q tr = Q (Exit (ExitJson c r)) tr"
  by (simp add: post_def exit_json_def)

lemma post_fail_json: "post (fail_json t) Q tr = Q (Exit (FailJson t)) tr"
  by (simp add: post_def fail_json_def)

lemma post_call: "post (call cn c) Q tr =
   (case cn tr c of Inl e \<Rightarrow> Q (Raise e) (tr @ [c]) | Inr v \<Rightarrow> Q (Ret v) (tr @ [c]))"
  by (simp add: post_def call_def split: sum.splits)

lemma post_subscript: "post (subscript v k) Q tr =
   (case getitem v k of Inl e \<Rightarrow> Q (Raise e) tr | Inr x \<Rightarrow> Q (Ret x) tr)"
  by (simp add: post_def subscript_def raise_def ret_def split: sum.splits)

lemma post_bnd: "post (bnd p f) Q tr =
   post p (\<lambda>r tr'. case r of Ret x \<Rightarrow> post (f x) Q tr' | Raise e \<Rightarrow> Q (Raise e) tr'
                    | Exit out \<Rightarrow> Q (Exit out) tr') tr"
  by (simp add: post_def bnd_def split: prod.splits res.splits)

lemma post_try_except: "post (try_except p h) Q tr =
   post p (\<lambda>r tr'. case r of Raise e \<Rightarrow> post (h e) Q tr' | Ret x \<Rightarrow> Q (Ret x) tr'
                    | Exit out \<Rightarrow> Q (Exit out) tr') tr"
  by (simp add: post_def try_except_def split: prod.splits res.splits)

lemma post_if: "post (if b then p else q) Q tr = (if b then post p Q tr else post q Q tr)"
  by simp

lemma post_case_prod:
  "post (case x of (a, b) \<Rightarrow> f a b) Q tr = (case x of (a, b) \<Rightarrow> post (f a b) Q tr)"
  by (simp split: prod.splits)

lemma finish_eq: "(finish p = v) =
   post p (\<lambda>r tr. case r of Exit out \<Rightarrow> (out, tr) = v | Raise e \<Rightarrow> (Uncaught e, tr) = v
                   | Ret _ \<Rightarrow> (NoExit, tr) = v) []"
  by (simp add: post_def finish_def split: prod.splits res.splits)

lemma finish_case: "(case finish p of (out, tr) \<Rightarrow> Q out tr) =
   post p (\<lambda>r tr. case r of Exit out \<Rightarrow> Q out tr | Raise e \<Rightarrow> Q (Uncaught e) tr
                   | Ret _ \<Rightarrow> Q NoExit tr) []"
  by (simp add: post_def finish_def split: prod.splits res.splits)

lemmas post_rules = post_ret post_raise post_exit_json post_fail_json post_call post_subscript
  post_bnd post_try_except post_if post_case_prod

text \<open>
  The same rules with every answer of the provider and both sides of every test spelled
  out, for properties of all runs.
\<close>

lemma all_call: "post (call cn c) Q tr =
   ((\<forall>e. cn tr c = Inl e \<longrightarrow> Q (Raise e) (tr @ [c])) \<and>
    (\<forall>v. cn tr c = Inr v \<longrightarrow> Q (Ret v) (tr @ [c])))"
  by (simp add: post_call split: sum.splits)

lemma all_subscript: "post (subscript v k) Q tr =
   ((\<forall>e. getitem v k = Inl e \<longrightarrow> Q (Raise e) tr) \<and>
    (\<forall>x. getitem v k = Inr x \<longrightarrow> Q (Ret x) tr))"
  by (simp add: post_subscript split: sum.splits)

lemma all_if:
  "post (if b then p else q) Q tr = ((b \<longrightarrow> post p Q tr) \<and> (\<not> b \<longrightarrow> post q Q tr))"
  by simp

lemma all_AnsibleModule: "post (AnsibleModule fw excl together m) Q tr =
   ((fw excl together m = None \<longrightarrow> Q (Ret ()) tr) \<and>
    (\<forall>t. fw excl together m = Some t \<longrightarrow> Q (Exit (FailJson t)) tr))"
  by (simp add: AnsibleModule_def post_ret post_fail_json split: option.splits)

lemmas all_rules = post_ret post_raise post_exit_json post_fail_json all_call all_subscript
  post_bnd post_try_except all_if post_case_prod all_AnsibleModule

lemma getitem_PNone: "getitem PNone k = Inl TypeError"
  by (simp add: getitem_def)

section \<open>Deleting an SSH key that does not exist\<close>

lemma delete_ssh_key_not_found:
  assumes "fw [] [] m = None"
    and "truthy (params m ''auth_token'')"
    and "params m ''state'' = PStr ''absent''"
    and "truthy (params m ''ssh_key_id'')"
    and "cn [] (GetSshKeyHelper (params m ''ssh_key_id'') True) = Inr PNone"
  shows "main_ssh_key fw True m cn =
     (if check_mode m then ExitJson (PBool False) None
      else FailJson (Fmt ''SSH key %s not found.'' (params m ''ssh_key_id'')),
      [GetSshKeyHelper (params m ''ssh_key_id'') True])"
  unfolding main_ssh_key_def using assms
  by (simp add: finish_eq post_rules delete_ssh_key_def AnsibleModule_def p_check_mode_def
      Let_def)

text \<open>
  C6, as the claim states it: with \<open>state: absent\<close> and an \<open>ssh_key_id\<close> that the lookup
  does not match, the run is said to end in a not-found failure. In check mode it does
  not: \<open>_check_mode(module, False)\<close> stands before the \<open>fail_json\<close> and exits with
  \<open>changed=False\<close>.
\<close>

theorem ssh_key_absent_check_mode_exits:
  "main_ssh_key accepting True (absent_k1 True) answer_none =
     (ExitJson (PBool False) None, [GetSshKeyHelper (PStr ''k1'') True])"
  using delete_ssh_key_not_found [of accepting "absent_k1 True" answer_none]
  by (simp add: accepting_def absent_k1_def answer_none_def params_of_def)

text \<open>
  C6, amended: when \<open>state: absent\<close> names an \<open>ssh_key_id\<close> that the lookup does not
  match, the run outside check mode ends in the failure \<open>SSH key <id> not found.\<close>, and
  in check mode it exits with \<open>changed=False\<close>. Either way \<open>changed\<close> is never true and
  the lookup is the only call: no delete call is issued.
\<close>

theorem ssh_key_absent_not_found:
  assumes "fw [] [] m = None"
    and "truthy (params m ''auth_token'')"
    and "params m ''state'' = PStr ''absent''"
    and "truthy (params m ''ssh_key_id'')"
    and "cn [] (GetSshKeyHelper (params m ''ssh_key_id'') True) = Inr PNone"
  shows "main_ssh_key fw True m cn =
     (if check_mode m then ExitJson (PBool False) None
      else FailJson (Fmt ''SSH key %s not found.'' (params m ''ssh_key_id'')),
      [GetSshKeyHelper (params m ''ssh_key_id'') True])"
  using assms by (rule delete_ssh_key_not_found)

theorem ssh_key_absent_not_found_witness:
  "main_ssh_key accepting True (absent_k1 False) answer_none =
     (FailJson (Fmt ''SSH key %s not found.'' (PStr ''k1'')),
      [GetSshKeyHelper (PStr ''k1'') True])"
  using ssh_key_absent_not_found [of accepting "absent_k1 False" answer_none]
  by (simp add: accepting_def absent_k1_def answer_none_def params_of_def)

section \<open>Partial failure of an update\<close>

lemma block_attach_failure:
  assumes "\<not> check_mode m"
    and "truthy (params m ''auth_token'')"
    and "params m ''state'' = PStr ''update''"
    and "truthy (params m ''attach'')"
    and "fw [[''attach'', ''detach'']] [[''attach'', ''server_id'']] m = None"
    and "truthy (params m ''block_storage'')"
    and "truthy (params m ''name'') \<or> truthy (params m ''description'')"
    and "cn [] (GetBlockStorage (params m ''block_storage'') True) = Inr bs"
    and "getitem bs ''id'' = Inr i"
    and "cn [GetBlockStorage (params m ''block_storage'') True]
           (ModifyBlockStorage i (params m ''name'') (params m ''description'')) = Inr bs'"
    and "getitem bs' ''id'' = Inr i'"
    and "cn [GetBlockStorage (params m ''block_storage'') True,
             ModifyBlockStorage i (params m ''name'') (params m ''description'')]
           (AttachBlockStorage i' (params m ''server_id'')) = Inl e"
  shows "main_block_storage fw True m cn =
     (FailJson (Str e),
      [GetBlockStorage (params m ''block_storage'') True,
       ModifyBlockStorage i (params m ''name'') (params m ''description''),
       AttachBlockStorage i' (params m ''server_id'')])"
  unfolding main_block_storage_def update_block_storage_def using assms
  by (auto simp add: finish_eq post_rules AnsibleModule_def p_check_mode_def
      p_attach_block_storage_def Let_def getitem_PNone)

lemma shared_attach_failure:
  assumes "\<not> check_mode m"
    and "truthy (params m ''auth_token'')"
    and "params m ''state'' = PStr ''update''"
    and "truthy (params m ''attach'')"
    and "fw [[''attach'', ''detach'']] [[''attach'', ''servers''], [''detach'', ''server_id'']] m
           = None"
    and "truthy (params m ''shared_storage'')"
    and "truthy (params m ''name'') \<or> truthy (params m ''description'')
           \<or> truthy (params m ''size'')"
    and "\<not> truthy (params m ''password'')"
    and "cn [] (GetSharedStorage (params m ''shared_storage'') True) = Inr ss"
    and "getitem ss ''id'' = Inr i"
    and "cn [GetSharedStorage (params m ''shared_storage'') True]
           (ModifySharedStorage i (params m ''name'') (params m ''description'')
              (params m ''size'')) = Inr ss'"
    and "getitem ss' ''id'' = Inr i'"
    and "cn [GetSharedStorage (params m ''shared_storage'') True,
             ModifySharedStorage i (params m ''name'') (params m ''description'')
               (params m ''size'')]
           (AttachServerSharedStorage i' (params m ''servers'')) = Inl e"
  shows "main_shared_storage fw True m cn =
     (FailJson (Str e),
      [GetSharedStorage (params m ''shared_storage'') True,
       ModifySharedStorage i (params m ''name'') (params m ''description'') (params m ''size''),
       AttachServerSharedStorage i' (params m ''servers'')])"
  unfolding main_shared_storage_def update_shared_storage_def using assms
  by (auto simp add: finish_eq post_rules AnsibleModule_def p_check_mode_def
      p_attach_shared_storage_def Let_def getitem_PNone)

lemma shared_password_attach_failure:
  assumes "\<not> check_mode m"
    and "truthy (params m ''auth_token'')"
    and "params m ''state'' = PStr ''update''"
    and "truthy (params m ''attach'')"
    and "fw [[''attach'', ''detach'']] [[''attach'', ''servers''], [''detach'', ''server_id'']] m
           = None"
    and "truthy (params m ''shared_storage'')"
    and "truthy (params m ''name'') \<or> truthy (params m ''description'')
           \<or> truthy (params m ''size'')"
    and "truthy (params m ''password'')"
    and "cn [] (GetSharedStorage (params m ''shared_storage'') True) = Inr ss"
    and "getitem ss ''id'' = Inr i"
    and "cn [GetSharedStorage (params m ''shared_storage'') True]
           (ModifySharedStorage i (params m ''name'') (params m ''description'')
              (params m ''size'')) = Inr ss'"
    and "cn [GetSharedStorage (params m ''shared_storage'') True,
             ModifySharedStorage i (params m ''name'') (params m ''description'')
               (params m ''size'')]
           (ChangePassword (params m ''password'')) = Inr ss''"
    and "getitem ss'' ''id'' = Inr i'"
    and "cn [GetSharedStorage (params m ''shared_storage'') True,
             ModifySharedStorage i (params m ''name'') (params m ''description'')
               (params m ''size''),
             ChangePassword (params m ''password'')]
           (AttachServerSharedStorage i' (params m ''servers'')) = Inl e"
  shows "main_shared_storage fw True m cn =
     (FailJson (Str e),
      [GetSharedStorage (params m ''shared_storage'') True,
       ModifySharedStorage i (params m ''name'') (params m ''description'') (params m ''size''),
       ChangePassword (params m ''password''),
       AttachServerSharedStorage i' (params m ''servers'')])"
  unfolding main_shared_storage_def update_shared_storage_def using assms
  by (auto simp add: finish_eq post_rules AnsibleModule_def p_check_mode_def
      p_attach_shared_storage_def Let_def getitem_PNone)

text \<open>
  C5: a \<open>state: update\<close> run, outside check mode, that renames or describes (or, for a
  shared storage, resizes) and attaches. When the modify call succeeds and the attach
  call that follows raises, the run ends in \<open>fail_json\<close> with the message of that
  exception, and the attach call is the last call of the trace: nothing is issued to
  undo the modification. The three parts are the block storage module, the shared
  storage module without \<open>password\<close>, and the shared storage module with \<open>password\<close>,
  whose \<open>change_password\<close> call then stands between the two and is not undone either.
\<close>

theorem update_attach_failure_no_rollback:
  assumes "\<not> check_mode m"
    and "truthy (params m ''auth_token'')"
    and "params m ''state'' = PStr ''update''"
    and "truthy (params m ''attach'')"
  shows
   "(fw [[''attach'', ''detach'']] [[''attach'', ''server_id'']] m = None \<and>
     truthy (params m ''block_storage'') \<and>
     (truthy (params m ''name'') \<or> truthy (params m ''description'')) \<and>
     cn [] (GetBlockStorage (params m ''block_storage'') True) = Inr bs \<and>
     getitem bs ''id'' = Inr i \<and>
     cn [GetBlockStorage (params m ''block_storage'') True]
        (ModifyBlockStorage i (params m ''name'') (params m ''description'')) = Inr bs' \<and>
     getitem bs' ''id'' = Inr i' \<and>
     cn [GetBlockStorage (params m ''block_storage'') True,
         ModifyBlockStorage i (params m ''name'') (params m ''description'')]
        (AttachBlockStorage i' (params m ''server_id'')) = Inl e \<longrightarrow>
     main_block_storage fw True m cn =
       (FailJson (Str e),
        [GetBlockStorage (params m ''block_storage'') True,
         ModifyBlockStorage i (params m ''name'') (params m ''description''),
         AttachBlockStorage i' (params m ''server_id'')])) \<and>
    (fw [[''attach'', ''detach'']] [[''attach'', ''servers''], [''detach'', ''server_id'']] m
       = None \<and>
     truthy (params m ''shared_storage'') \<and>
     (truthy (params m ''name'') \<or> truthy (params m ''description'')
        \<or> truthy (params m ''size'')) \<and>
     \<not> truthy (params m ''password'') \<and>
     cn [] (GetSharedStorage (params m ''shared_storage'') True) = Inr bs \<and>
     getitem bs ''id'' = Inr i \<and>
     cn [GetSharedStorage (params m ''shared_storage'') True]
        (ModifySharedStorage i (params m ''name'') (params m ''description'')
           (params m ''size'')) = Inr bs' \<and>
     getitem bs' ''id'' = Inr i' \<and>
     cn [GetSharedStorage (params m ''shared_storage'') True,
         ModifySharedStorage i (params m ''name'') (params m ''description'')
           (params m ''size'')]
        (AttachServerSharedStorage i' (params m ''servers'')) = Inl e \<longrightarrow>
     main_shared_storage fw True m cn =
       (FailJson (Str e),
        [GetSharedStorage (params m ''shared_storage'') True,
         ModifySharedStorage i (params m ''name'') (params m ''description'')
           (params m ''size''),
         AttachServerSharedStorage i' (params m ''servers'')])) \<and>
    (fw [[''attach'', ''detach'']] [[''attach'', ''servers''], [''detach'', ''server_id'']] m
       = None \<and>
     truthy (params m ''shared_storage'') \<and>
     (truthy (params m ''name'') \<or> truthy (params m ''description'')
        \<or> truthy (params m ''size'')) \<and>
     truthy (params m ''password'') \<and>
     cn [] (GetSharedStorage (params m ''shared_storage'') True) = Inr bs \<and>
     getitem bs ''id'' = Inr i \<and>
     cn [GetSharedStorage (params m ''shared_storage'') True]
        (ModifySharedStorage i (params m ''name'') (params m ''description'')
           (params m ''size'')) = Inr bs' \<and>
     cn [GetSharedStorage (params m ''shared_storage'') True,
         ModifySharedStorage i (params m ''name'') (params m ''description'')
           (params m ''size'')]
        (ChangePassword (params m ''password'')) = Inr bs'' \<and>
     getitem bs'' ''id'' = Inr i' \<and>
     cn [GetSharedStorage (params m ''shared_storage'') True,
         ModifySharedStorage i (params m ''name'') (params m ''description'')
           (params m ''size''),
         ChangePassword (params m ''password'')]
        (AttachServerSharedStorage i' (params m ''servers'')) = Inl e \<longrightarrow>
     main_shared_storage fw True m cn =
       (FailJson (Str e),
        [GetSharedStorage (params m ''shared_storage'') True,
         ModifySharedStorage i (params m ''name'') (params m ''description'')
           (params m ''size''),
         ChangePassword (params m ''password''),
         AttachServerSharedStorage i' (params m ''servers'')]))"
  using assms block_attach_failure [of m fw cn bs i bs' i' e]
    shared_attach_failure [of m fw cn bs i bs' i' e]
    shared_password_attach_failure [of m fw cn bs i bs' bs'' i' e]
  by blast

theorem update_attach_failure_no_rollback_witness:
  "main_block_storage accepting True
     (invocation False ([(''state'', PStr ''update''), (''block_storage'', PStr ''r1''),
        (''name'', PStr ''y''), (''attach'', PBool True)] @ block_base)) attach_refused =
     (FailJson (Str (SdkError ''attach refused'')),
      [GetBlockStorage (PStr ''r1'') True,
       ModifyBlockStorage (PStr ''r1'') (PStr ''y'') PNone,
       AttachBlockStorage (PStr ''r1'') (PStr ''s1'')]) \<and>
   main_shared_storage accepting True
     (invocation False ([(''state'', PStr ''update''), (''shared_storage'', PStr ''r1''),
        (''name'', PStr ''y''), (''attach'', PBool True)] @ shared_base)) attach_refused =
     (FailJson (Str (SdkError ''attach refused'')),
      [GetSharedStorage (PStr ''r1'') True,
       ModifySharedStorage (PStr ''r1'') (PStr ''y'') PNone PNone,
       AttachServerSharedStorage (PStr ''r1'') servers_s1]) \<and>
   main_shared_storage accepting True
     (invocation False ([(''state'', PStr ''update''), (''shared_storage'', PStr ''r1''),
        (''name'', PStr ''y''), (''password'', PStr ''pw''), (''attach'', PBool True)]
        @ shared_base)) attach_refused =
     (FailJson (Str (SdkError ''attach refused'')),
      [GetSharedStorage (PStr ''r1'') True,
       ModifySharedStorage (PStr ''r1'') (PStr ''y'') PNone PNone,
       ChangePassword (PStr ''pw''),
       AttachServerSharedStorage (PStr ''r1'') servers_s1])"
  using
    update_attach_failure_no_rollback [where m = "invocation False ([(''state'', PStr ''update''),
        (''block_storage'', PStr ''r1''), (''name'', PStr ''y''), (''attach'', PBool True)]
        @ block_base)" and fw = accepting and cn = attach_refused and bs = resource_r1
        and i = "PStr ''r1''" and bs' = resource_r1 and i' = "PStr ''r1''"
        and e = "SdkError ''attach refused''" and bs'' = resource_r1]
    update_attach_failure_no_rollback [where m = "invocation False ([(''state'', PStr ''update''),
        (''shared_storage'', PStr ''r1''), (''name'', PStr ''y''), (''attach'', PBool True)]
        @ shared_base)" and fw = accepting and cn = attach_refused and bs = resource_r1
        and i = "PStr ''r1''" and bs' = resource_r1 and i' = "PStr ''r1''"
        and e = "SdkError ''attach refused''" and bs'' = resource_r1]
    update_attach_failure_no_rollback [where m = "invocation False ([(''state'', PStr ''update''),
        (''shared_storage'', PStr ''r1''), (''name'', PStr ''y''), (''password'', PStr ''pw''),
        (''attach'', PBool True)] @ shared_base)" and fw = accepting and cn = attach_refused
        and bs = resource_r1 and i = "PStr ''r1''" and bs' = resource_r1 and i' = "PStr ''r1''"
        and e = "SdkError ''attach refused''" and bs'' = resource_r1]
  by (simp add: invocation_def params_of_def accepting_def attach_refused_def resource_r1_def
      getitem_def block_base_def shared_base_def)

section \<open>Detaching a shared storage\<close>

lemma shared_detach_all_runs:
  assumes "\<not> check_mode m"
    and "params m ''state'' = PStr ''update''"
    and "truthy (params m ''detach'')"
  shows "case main_shared_storage fw has_sdk m cn of (out, tr) \<Rightarrow>
      (\<exists>t. out = FailJson t) \<and> (\<forall>i s. DetachServerSharedStorage i s \<notin> set tr)"
  unfolding main_shared_storage_def update_shared_storage_def using assms
  by (simp add: finish_case all_rules p_check_mode_def missing_argument_def
      p_attach_shared_storage_def Let_def split del: if_split)

lemma shared_detach_only:
  assumes "\<not> check_mode m"
    and "params m ''state'' = PStr ''update''"
    and "truthy (params m ''detach'')"
    and "fw [[''attach'', ''detach'']] [[''attach'', ''servers''], [''detach'', ''server_id'']] m
           = None"
    and "truthy (params m ''auth_token'')"
    and "truthy (params m ''shared_storage'')"
    and "\<not> truthy (params m ''name'')"
    and "\<not> truthy (params m ''description'')"
    and "\<not> truthy (params m ''size'')"
    and "\<not> truthy (params m ''password'')"
    and "\<not> truthy (params m ''attach'')"
    and "cn [] (GetSharedStorage (params m ''shared_storage'') True) = Inr ss"
    and "getitem ss ''id'' = Inr i"
  shows "main_shared_storage fw True m cn =
     (FailJson (Str TypeError), [GetSharedStorage (params m ''shared_storage'') True])"
  unfolding main_shared_storage_def update_shared_storage_def using assms
  by (auto simp add: finish_eq post_rules AnsibleModule_def p_check_mode_def Let_def
      missing_argument_def getitem_PNone)

text \<open>
  C9: outside check mode, every \<open>state: update\<close> run of the shared storage module with
  \<open>detach\<close> set ends in \<open>fail_json\<close>, and no detach call is ever issued, whatever the
  provider answers. When the lookup finds the shared storage and nothing else is
  requested, the lookup is the only call and the message is that of the \<open>TypeError\<close>
  of calling \<open>_detach_shared_storage\<close> with three arguments for its four parameters.
\<close>

theorem shared_detach_always_fails:
  assumes "\<not> check_mode m"
    and "params m ''state'' = PStr ''update''"
    and "truthy (params m ''detach'')"
  shows "(\<exists>t. fst (main_shared_storage fw has_sdk m cn) = FailJson t) \<and>
     (\<forall>i s. DetachServerSharedStorage i s \<notin> set (snd (main_shared_storage fw has_sdk m cn))) \<and>
     (fw [[''attach'', ''detach'']] [[''attach'', ''servers''], [''detach'', ''server_id'']] m
        = None \<and>
      has_sdk \<and>
      truthy (params m ''auth_token'') \<and>
      truthy (params m ''shared_storage'') \<and>
      \<not> truthy (params m ''name'') \<and>
      \<not> truthy (params m ''description'') \<and>
      \<not> truthy (params m ''size'') \<and>
      \<not> truthy (params m ''password'') \<and>
      \<not> truthy (params m ''attach'') \<and>
      cn [] (GetSharedStorage (params m ''shared_storage'') True) = Inr ss \<and>
      getitem ss ''id'' = Inr i \<longrightarrow>
      main_shared_storage fw has_sdk m cn =
        (FailJson (Str TypeError), [GetSharedStorage (params m ''shared_storage'') True]))"
  using shared_detach_all_runs [OF assms, of fw has_sdk cn]
    shared_detach_only [OF assms, of fw cn ss i]
  by (auto simp add: case_prod_unfold)

theorem shared_detach_always_fails_witness:
  "(\<exists>t. fst (main_shared_storage accepting True
        (invocation False ([(''state'', PStr ''update''), (''shared_storage'', PStr ''r1''),
           (''detach'', PBool True)] @ shared_base)) answer_found) = FailJson t) \<and>
   (\<forall>i s. DetachServerSharedStorage i s \<notin> set (snd (main_shared_storage accepting True
        (invocation False ([(''state'', PStr ''update''), (''shared_storage'', PStr ''r1''),
           (''detach'', PBool True)] @ shared_base)) answer_found))) \<and>
   main_shared_storage accepting True
     (invocation False ([(''state'', PStr ''update''), (''shared_storage'', PStr ''r1''),
        (''detach'', PBool True)] @ shared_base)) answer_found =
     (FailJson (Str TypeError), [GetSharedStorage (PStr ''r1'') True])"
  using shared_detach_always_fails [where m = "invocation False ([(''state'', PStr ''update''),
        (''shared_storage'', PStr ''r1''), (''detach'', PBool True)] @ shared_base)"
      and fw = accepting and has_sdk = True and cn = answer_found and ss = resource_r1
      and i = "PStr ''r1''"]
  by (simp add: invocation_def params_of_def accepting_def answer_found_def resource_r1_def
      getitem_def shared_base_def)

section \<open>The changed flag of an update\<close>

lemma block_update_changed:
  assumes "\<not> check_mode m"
    and "params m ''state'' = PStr ''update''"
  shows "case main_block_storage fw has_sdk m cn of (out, tr) \<Rightarrow>
      \<forall>c r. out = ExitJson c r \<and> truthy c \<longrightarrow> (\<exists>x\<in>set tr. mutating x)"
  unfolding main_block_storage_def update_block_storage_def using assms
  by (simp add: finish_case all_rules p_check_mode_def
      p_attach_block_storage_def p_detach_block_storage_def Let_def split del: if_split)

lemma shared_update_changed:
  assumes "\<not> check_mode m"
    and "params m ''state'' = PStr ''update''"
  shows "case main_shared_storage fw has_sdk m cn of (out, tr) \<Rightarrow>
      \<forall>c r. out = ExitJson c r \<and> truthy c \<longrightarrow> (\<exists>x\<in>set tr. mutating x)"
  unfolding main_shared_storage_def update_shared_storage_def using assms
  by (simp add: finish_case all_rules p_check_mode_def missing_argument_def
      p_attach_shared_storage_def Let_def split del: if_split)

lemma block_update_nothing:
  assumes "\<not> check_mode m"
    and "params m ''state'' = PStr ''update''"
    and "fw [[''attach'', ''detach'']] [[''attach'', ''server_id'']] m = None"
    and "truthy (params m ''auth_token'')"
    and "truthy (params m ''block_storage'')"
    and "\<not> truthy (params m ''name'')"
    and "\<not> truthy (params m ''description'')"
    and "\<not> truthy (params m ''attach'')"
    and "\<not> truthy (params m ''detach'')"
    and "cn [] (GetBlockStorage (params m ''block_storage'') True) = Inr bs"
  shows "main_block_storage fw True m cn =
     (ExitJson (PBool False) (Some bs), [GetBlockStorage (params m ''block_storage'') True])"
  unfolding main_block_storage_def update_block_storage_def using assms
  by (simp add: finish_eq post_rules AnsibleModule_def p_check_mode_def Let_def)

lemma shared_update_nothing:
  assumes "\<not> check_mode m"
    and "params m ''state'' = PStr ''update''"
    and "fw [[''attach'', ''detach'']] [[''attach'', ''servers''], [''detach'', ''server_id'']] m
           = None"
    and "truthy (params m ''auth_token'')"
    and "truthy (params m ''shared_storage'')"
    and "\<not> truthy (params m ''name'')"
    and "\<not> truthy (params m ''description'')"
    and "\<not> truthy (params m ''size'')"
    and "\<not> truthy (params m ''password'')"
    and "\<not> truthy (params m ''attach'')"
    and "\<not> truthy (params m ''detach'')"
    and "cn [] (GetSharedStorage (params m ''shared_storage'') True) = Inr ss"
  shows "main_shared_storage fw True m cn =
     (ExitJson (PBool False) (Some ss), [GetSharedStorage (params m ''shared_storage'') True])"
  unfolding main_shared_storage_def update_shared_storage_def using assms
  by (simp add: finish_eq post_rules AnsibleModule_def p_check_mode_def Let_def)

lemma block_rename_run:
  "main_block_storage accepting True
     (invocation False ([(''state'', PStr ''update''), (''block_storage'', PStr ''r1''),
        (''name'', PStr ''y'')] @ block_base)) answer_found =
     (ExitJson (PBool True) (Some resource_r1),
      [GetBlockStorage (PStr ''r1'') True,
       ModifyBlockStorage (PStr ''r1'') (PStr ''y'') PNone])"
  unfolding main_block_storage_def update_block_storage_def
  by (simp add: finish_eq post_rules AnsibleModule_def p_check_mode_def Let_def
      invocation_def params_of_def accepting_def answer_found_def resource_r1_def
      getitem_def block_base_def)

text \<open>
  C10: in every \<open>state: update\<close> run of the block storage and of the shared storage
  module outside check mode, an \<open>exit_json\<close> whose \<open>changed\<close> is true comes after at least
  one mutating call. In particular, with \<open>name\<close>, \<open>description\<close>, \<open>size\<close> and \<open>password\<close>
  unset and \<open>attach\<close> and \<open>detach\<close> false, the run exits with \<open>changed=False\<close> and the
  resource that the lookup answered, and the lookup is its only call.
\<close>

theorem update_changed_only_after_mutation:
  assumes "\<not> check_mode m"
    and "params m ''state'' = PStr ''update''"
  shows
   "(\<forall>c r. fst (main_block_storage fw has_sdk m cn) = ExitJson c r \<and> truthy c \<longrightarrow>
        (\<exists>x\<in>set (snd (main_block_storage fw has_sdk m cn)). mutating x)) \<and>
    (\<forall>c r. fst (main_shared_storage fw has_sdk m cn) = ExitJson c r \<and> truthy c \<longrightarrow>
        (\<exists>x\<in>set (snd (main_shared_storage fw has_sdk m cn)). mutating x)) \<and>
    (fw [[''attach'', ''detach'']] [[''attach'', ''server_id'']] m = None \<and>
     has_sdk \<and>
     truthy (params m ''auth_token'') \<and>
     truthy (params m ''block_storage'') \<and>
     \<not> truthy (params m ''name'') \<and>
     \<not> truthy (params m ''description'') \<and>
     \<not> truthy (params m ''attach'') \<and>
     \<not> truthy (params m ''detach'') \<and>
     cn [] (GetBlockStorage (params m ''block_storage'') True) = Inr bs \<longrightarrow>
     main_block_storage fw has_sdk m cn =
       (ExitJson (PBool False) (Some bs),
        [GetBlockStorage (params m ''block_storage'') True])) \<and>
    (fw [[''attach'', ''detach'']] [[''attach'', ''servers''], [''detach'', ''server_id'']] m
       = None \<and>
     has_sdk \<and>
     truthy (params m ''auth_token'') \<and>
     truthy (params m ''shared_storage'') \<and>
     \<not> truthy (params m ''name'') \<and>
     \<not> truthy (params m ''description'') \<and>
     \<not> truthy (params m ''size'') \<and>
     \<not> truthy (params m ''password'') \<and>
     \<not> truthy (params m ''attach'') \<and>
     \<not> truthy (params m ''detach'') \<and>
     cn [] (GetSharedStorage (params m ''shared_storage'') True) = Inr bs \<longrightarrow>
     main_shared_storage fw has_sdk m cn =
       (ExitJson (PBool False) (Some bs),
        [GetSharedStorage (params m ''shared_storage'') True]))"
  using block_update_changed [OF assms, of fw has_sdk cn]
    shared_update_changed [OF assms, of fw has_sdk cn]
    block_update_nothing [OF assms, of fw cn bs]
    shared_update_nothing [OF assms, of fw cn bs]
  by (auto simp add: case_prod_unfold)

theorem update_changed_only_after_mutation_witness:
  "fst (main_block_storage accepting True
     (invocation False ([(''state'', PStr ''update''), (''block_storage'', PStr ''r1''),
        (''name'', PStr ''y'')] @ block_base)) answer_found) =
     ExitJson (PBool True) (Some resource_r1) \<and>
   (\<exists>x\<in>set (snd (main_block_storage accepting True
     (invocation False ([(''state'', PStr ''update''), (''block_storage'', PStr ''r1''),
        (''name'', PStr ''y'')] @ block_base)) answer_found)). mutating x) \<and>
   main_block_storage accepting True
     (invocation False ([(''state'', PStr ''update''), (''block_storage'', PStr ''r1'')]
        @ block_base)) answer_found =
     (ExitJson (PBool False) (Some resource_r1), [GetBlockStorage (PStr ''r1'') True]) \<and>
   main_shared_storage accepting True
     (invocation False ([(''state'', PStr ''update''), (''shared_storage'', PStr ''r1'')]
        @ shared_base)) answer_found =
     (ExitJson (PBool False) (Some resource_r1), [GetSharedStorage (PStr ''r1'') True])"
  using block_rename_run
    update_changed_only_after_mutation [where m = "invocation False
        ([(''state'', PStr ''update''), (''block_storage'', PStr ''r1''), (''name'', PStr ''y'')]
         @ block_base)" and fw = accepting and has_sdk = True and cn = answer_found
        and bs = resource_r1]
    update_changed_only_after_mutation [where m = "invocation False
        ([(''state'', PStr ''update''), (''block_storage'', PStr ''r1'')] @ block_base)"
        and fw = accepting and has_sdk = True and cn = answer_found and bs = resource_r1]
    update_changed_only_after_mutation [where m = "invocation False
        ([(''state'', PStr ''update''), (''shared_storage'', PStr ''r1'')] @ shared_base)"
        and fw = accepting and has_sdk = True and cn = answer_found and bs = resource_r1]
  by (simp add: invocation_def params_of_def accepting_def answer_found_def
      block_base_def shared_base_def)

section \<open>Attaching servers to a shared storage\<close>

lemma shared_attach_all_runs:
  assumes "\<not> check_mode m"
    and "params m ''state'' = PStr ''update''"
    and "truthy (params m ''attach'')"
    and "\<not> truthy (params m ''detach'')"
  shows "case main_shared_storage fw has_sdk m cn of (out, tr) \<Rightarrow>
      length (filter is_attach tr) \<le> 1 \<and>
      (\<forall>i s. AttachServerSharedStorage i s \<in> set tr \<longrightarrow> s = params m ''servers'') \<and>
      (\<forall>c r. out = ExitJson c r \<longrightarrow>
         c = PBool True \<and>
         (\<exists>i. filter is_attach tr = [AttachServerSharedStorage i (params m ''servers'')]))"
  unfolding main_shared_storage_def update_shared_storage_def using assms
  by (simp add: finish_case all_rules p_check_mode_def missing_argument_def
      p_attach_shared_storage_def Let_def split del: if_split)

lemma shared_attach_only:
  assumes "\<not> check_mode m"
    and "params m ''state'' = PStr ''update''"
    and "truthy (params m ''attach'')"
    and "\<not> truthy (params m ''detach'')"
    and "fw [[''attach'', ''detach'']] [[''attach'', ''servers''], [''detach'', ''server_id'']] m
           = None"
    and "truthy (params m ''auth_token'')"
    and "truthy (params m ''shared_storage'')"
    and "\<not> truthy (params m ''name'')"
    and "\<not> truthy (params m ''description'')"
    and "\<not> truthy (params m ''size'')"
    and "\<not> truthy (params m ''password'')"
    and "cn [] (GetSharedStorage (params m ''shared_storage'') True) = Inr ss"
    and "getitem ss ''id'' = Inr i"
    and "cn [GetSharedStorage (params m ''shared_storage'') True]
           (AttachServerSharedStorage i (params m ''servers'')) = Inr ss'"
  shows "main_shared_storage fw True m cn =
     (ExitJson (PBool True) (Some ss'),
      [GetSharedStorage (params m ''shared_storage'') True,
       AttachServerSharedStorage i (params m ''servers'')])"
  unfolding main_shared_storage_def update_shared_storage_def using assms
  by (auto simp add: finish_eq post_rules AnsibleModule_def p_check_mode_def Let_def
      p_attach_shared_storage_def getitem_PNone)

text \<open>
  C7, as the claim states it: a \<open>state: update\<close> run of the shared storage module with
  \<open>attach\<close> set, a servers list and no \<open>detach\<close>, on a shared storage that the lookup
  finds, is said to issue one attach call and to return \<open>changed=true\<close>. In check mode
  it does neither: \<open>_check_mode(module, servers)\<close> exits before the attach call, and the
  \<open>changed\<close> it reports is the servers list itself.
\<close>

theorem shared_attach_check_mode_no_call:
  "main_shared_storage accepting True
     (invocation True ([(''state'', PStr ''update''), (''shared_storage'', PStr ''r1''),
        (''attach'', PBool True)] @ shared_base)) answer_found =
     (ExitJson servers_s1 None, [GetSharedStorage (PStr ''r1'') True])"
  unfolding main_shared_storage_def update_shared_storage_def
  by (simp add: finish_eq post_rules AnsibleModule_def p_check_mode_def Let_def
      invocation_def params_of_def accepting_def answer_found_def
      resource_r1_def servers_s1_def shared_base_def)

text \<open>
  C7, amended: outside check mode, a \<open>state: update\<close> run of the shared storage module
  with \<open>attach\<close> set and \<open>detach\<close> unset issues at most one attach call, and every attach
  call carries exactly the \<open>servers\<close> parameter; whenever the run exits normally it has
  issued exactly one attach call and reports \<open>changed=True\<close>. When the lookup finds
  the shared storage, nothing else is requested and the attach call succeeds, the run
  is the lookup, the attach call, and \<open>changed=True\<close> with the answer of the attach
  call.
\<close>

theorem shared_attach_exactly_once:
  assumes "\<not> check_mode m"
    and "params m ''state'' = PStr ''update''"
    and "truthy (params m ''attach'')"
    and "\<not> truthy (params m ''detach'')"
  shows
   "length (filter is_attach (snd (main_shared_storage fw has_sdk m cn))) \<le> 1 \<and>
    (\<forall>i s. AttachServerSharedStorage i s \<in> set (snd (main_shared_storage fw has_sdk m cn)) \<longrightarrow>
       s = params m ''servers'') \<and>
    (\<forall>c r. fst (main_shared_storage fw has_sdk m cn) = ExitJson c r \<longrightarrow>
       c = PBool True \<and>
       (\<exists>i. filter is_attach (snd (main_shared_storage fw has_sdk m cn)) =
          [AttachServerSharedStorage i (params m ''servers'')])) \<and>
    (fw [[''attach'', ''detach'']] [[''attach'', ''servers''], [''detach'', ''server_id'']] m
       = None \<and>
     truthy (params m ''auth_token'') \<and>
     truthy (params m ''shared_storage'') \<and>
     \<not> truthy (params m ''name'') \<and>
     \<not> truthy (params m ''description'') \<and>
     \<not> truthy (params m ''size'') \<and>
     \<not> truthy (params m ''password'') \<and>
     cn [] (GetSharedStorage (params m ''shared_storage'') True) = Inr ss \<and>
     getitem ss ''id'' = Inr i \<and>
     cn [GetSharedStorage (params m ''shared_storage'') True]
        (AttachServerSharedStorage i (params m ''servers'')) = Inr ss' \<longrightarrow>
     main_shared_storage fw True m cn =
       (ExitJson (PBool True) (Some ss'),
        [GetSharedStorage (params m ''shared_storage'') True,
         AttachServerSharedStorage i (params m ''servers'')]))"
proof -
  have "length (filter is_attach (snd (main_shared_storage fw has_sdk m cn))) \<le> 1 \<and>
    (\<forall>i s. AttachServerSharedStorage i s \<in> set (snd (main_shared_storage fw has_sdk m cn)) \<longrightarrow>
       s = params m ''servers'') \<and>
    (\<forall>c r. fst (main_shared_storage fw has_sdk m cn) = ExitJson c r \<longrightarrow>
       c = PBool True \<and>
       (\<exists>i. filter is_attach (snd (main_shared_storage fw has_sdk m cn)) =
          [AttachServerSharedStorage i (params m ''servers'')]))"
    using shared_attach_all_runs [OF assms, of fw has_sdk cn]
    by (simp add: case_prod_unfold)
  thus ?thesis
    using shared_attach_only [OF assms, of fw cn ss i ss'] by blast
qed

theorem shared_attach_exactly_once_witness:
  "length (filter is_attach (snd (main_shared_storage accepting True
     (invocation False ([(''state'', PStr ''update''), (''shared_storage'', PStr ''r1''),
        (''attach'', PBool True)] @ shared_base)) answer_found))) \<le> 1 \<and>
   main_shared_storage accepting True
     (invocation False ([(''state'', PStr ''update''), (''shared_storage'', PStr ''r1''),
        (''attach'', PBool True)] @ shared_base)) answer_found =
     (ExitJson (PBool True) (Some resource_r1),
      [GetSharedStorage (PStr ''r1'') True,
       AttachServerSharedStorage (PStr ''r1'') servers_s1])"
  using shared_attach_exactly_once [where m = "invocation False
        ([(''state'', PStr ''update''), (''shared_storage'', PStr ''r1''),
          (''attach'', PBool True)] @ shared_base)"
      and fw = accepting and has_sdk = True and cn = answer_found and ss = resource_r1
      and i = "PStr ''r1''" and ss' = resource_r1]
  by (simp add: invocation_def params_of_def accepting_def answer_found_def resource_r1_def
      getitem_def shared_base_def)

section \<open>Creating a resource that exists\<close>







section \<open>Deleting a resource that does not exist\<close>

lemma block_absent_check_mode:
  assumes "truthy (params m ''auth_token'')"
    and "params m ''state'' = PStr ''absent''"
    and "check_mode m"
    and "fw [[''attach'', ''detach'']] [[''attach'', ''server_id'']] m = None"
    and "truthy (params m ''name'')"
    and "cn [] (GetBlockStorage (params m ''name'') False) = Inr PNone"
  shows "main_block_storage fw True m cn =
     (ExitJson (PBool False) None, [GetBlockStorage (params m ''name'') False])"
  unfolding main_block_storage_def remove_block_storage_def using assms
  by (simp add: finish_eq post_rules AnsibleModule_def p_check_mode_def Let_def)

lemma shared_absent_check_mode:
  assumes "truthy (params m ''auth_token'')"
    and "params m ''state'' = PStr ''absent''"
    and "check_mode m"
    and "fw [[''attach'', ''detach'']] [[''attach'', ''servers''], [''detach'', ''server_id'']] m
           = None"
    and "truthy (params m ''name'')"
    and "cn [] (GetSharedStorage (params m ''name'') False) = Inr PNone"
  shows "main_shared_storage fw True m cn =
     (ExitJson (PBool False) None, [GetSharedStorage (params m ''name'') False])"
  unfolding main_shared_storage_def remove_shared_storage_def using assms
  by (simp add: finish_eq post_rules AnsibleModule_def p_check_mode_def Let_def)

text \<open>
  Outside check mode the two storage modules do not test what the lookup returned: with
  a name that resolves to nothing, the delete call is issued with \<open>None\<close>.
\<close>

lemma block_absent_deletes_none:
  assumes "truthy (params m ''auth_token'')"
    and "params m ''state'' = PStr ''absent''"
    and "\<not> check_mode m"
    and "fw [[''attach'', ''detach'']] [[''attach'', ''server_id'']] m = None"
    and "truthy (params m ''name'')"
    and "cn [] (GetBlockStorage (params m ''name'') False) = Inr PNone"
  shows "take 2 (snd (main_block_storage fw True m cn)) =
     [GetBlockStorage (params m ''name'') False, DeleteBlockStorage PNone]"
proof -
  have "case main_block_storage fw True m cn of (out, tr) \<Rightarrow>
      take 2 tr = [GetBlockStorage (params m ''name'') False, DeleteBlockStorage PNone]"
    unfolding main_block_storage_def remove_block_storage_def using assms
    by (simp add: finish_case all_rules p_check_mode_def Let_def split del: if_split)
  thus ?thesis by (simp add: case_prod_unfold)
qed

lemma shared_absent_deletes_none:
  assumes "truthy (params m ''auth_token'')"
    and "params m ''state'' = PStr ''absent''"
    and "\<not> check_mode m"
    and "fw [[''attach'', ''detach'']] [[''attach'', ''servers''], [''detach'', ''server_id'']] m
           = None"
    and "truthy (params m ''name'')"
    and "cn [] (GetSharedStorage (params m ''name'') False) = Inr PNone"
  shows "take 2 (snd (main_shared_storage fw True m cn)) =
     [GetSharedStorage (params m ''name'') False, DeleteSharedStorage PNone]"
proof -
  have "case main_shared_storage fw True m cn of (out, tr) \<Rightarrow>
      take 2 tr = [GetSharedStorage (params m ''name'') False, DeleteSharedStorage PNone]"
    unfolding main_shared_storage_def remove_shared_storage_def using assms
    by (simp add: finish_case all_rules p_check_mode_def Let_def split del: if_split)
  thus ?thesis by (simp add: case_prod_unfold)
qed

text \<open>
  C3, as the claim states it: for every resource kind, \<open>state: absent\<close> on a name or id
  that resolves to nothing is said to return \<open>changed=false\<close> and to raise no not-found
  error. The SSH key module, outside check mode, ends in the failure
  \<open>SSH key k2 not found.\<close>
\<close>

theorem ssh_key_absent_reports_not_found:
  "fst (main_ssh_key accepting True
     (invocation False ([(''state'', PStr ''absent''), (''ssh_key_id'', PStr ''k2'')]
        @ ssh_key_base)) answer_none) =
     FailJson (Fmt ''SSH key %s not found.'' (PStr ''k2''))"
  using delete_ssh_key_not_found [of accepting
      "invocation False ([(''state'', PStr ''absent''), (''ssh_key_id'', PStr ''k2'')]
        @ ssh_key_base)" answer_none]
  by (simp add: invocation_def params_of_def accepting_def answer_none_def ssh_key_base_def)

text \<open>
  C3, amended: in check mode, for every resource kind, \<open>state: absent\<close> on a name or
  id that the lookup resolves to nothing exits with \<open>changed=False\<close>, and the lookup is
  the only call: no delete call is issued. Outside check mode the SSH key module
  instead ends in the failure \<open>SSH key <id> not found.\<close>, again with the lookup as the
  only call.
\<close>

theorem absent_of_missing_resource:
  assumes "truthy (params m ''auth_token'')"
    and "params m ''state'' = PStr ''absent''"
  shows
   "(check_mode m \<and>
     fw [[''attach'', ''detach'']] [[''attach'', ''server_id'']] m = None \<and>
     truthy (params m ''name'') \<and>
     cn [] (GetBlockStorage (params m ''name'') False) = Inr PNone \<longrightarrow>
     main_block_storage fw True m cn =
       (ExitJson (PBool False) None, [GetBlockStorage (params m ''name'') False])) \<and>
    (check_mode m \<and>
     fw [[''attach'', ''detach'']] [[''attach'', ''servers''], [''detach'', ''server_id'']] m
       = None \<and>
     truthy (params m ''name'') \<and>
     cn [] (GetSharedStorage (params m ''name'') False) = Inr PNone \<longrightarrow>
     main_shared_storage fw True m cn =
       (ExitJson (PBool False) None, [GetSharedStorage (params m ''name'') False])) \<and>
    (fw [] [] m = None \<and>
     truthy (params m ''ssh_key_id'') \<and>
     cn [] (GetSshKeyHelper (params m ''ssh_key_id'') True) = Inr PNone \<longrightarrow>
     main_ssh_key fw True m cn =
       (if check_mode m then ExitJson (PBool False) None
        else FailJson (Fmt ''SSH key %s not found.'' (params m ''ssh_key_id'')),
        [GetSshKeyHelper (params m ''ssh_key_id'') True]))"
  using block_absent_check_mode [OF assms, of fw cn]
    shared_absent_check_mode [OF assms, of fw cn]
    delete_ssh_key_not_found [of fw m cn] assms
  by blast

theorem absent_of_missing_resource_witness:
  "main_block_storage accepting True
     (invocation True ([(''state'', PStr ''absent''), (''name'', PStr ''x'')] @ block_base))
     answer_none =
     (ExitJson (PBool False) None, [GetBlockStorage (PStr ''x'') False]) \<and>
   main_shared_storage accepting True
     (invocation True ([(''state'', PStr ''absent''), (''name'', PStr ''x'')] @ shared_base))
     answer_none =
     (ExitJson (PBool False) None, [GetSharedStorage (PStr ''x'') False]) \<and>
   main_ssh_key accepting True
     (invocation True ([(''state'', PStr ''absent''), (''ssh_key_id'', PStr ''k2'')]
        @ ssh_key_base)) answer_none =
     (ExitJson (PBool False) None, [GetSshKeyHelper (PStr ''k2'') True])"
  using
    absent_of_missing_resource [where m = "invocation True
        ([(''state'', PStr ''absent''), (''name'', PStr ''x'')] @ block_base)"
        and fw = accepting and cn = answer_none]
    absent_of_missing_resource [where m = "invocation True
        ([(''state'', PStr ''absent''), (''name'', PStr ''x'')] @ shared_base)"
        and fw = accepting and cn = answer_none]
    absent_of_missing_resource [where m = "invocation True
        ([(''state'', PStr ''absent''), (''ssh_key_id'', PStr ''k2'')] @ ssh_key_base)"
        and fw = accepting and cn = answer_none]
  by (simp add: invocation_def params_of_def accepting_def answer_none_def block_base_def
      shared_base_def ssh_key_base_def)

section \<open>Check mode\<close>







section \<open>Attach together with detach\<close>

lemma exclusive_only_rejects: "rejects_exclusive exclusive_only"
  by (auto simp add: rejects_exclusive_def exclusive_only_def list_ex_iff)

lemma block_attach_detach_rejected:
  assumes "rejects_exclusive fw"
    and "truthy (params m ''attach'')"
    and "truthy (params m ''detach'')"
  shows "\<exists>t. main_block_storage fw has_sdk m cn = (FailJson t, [])"
proof -
  have "fw [[''attach'', ''detach'']] [[''attach'', ''server_id'']] m \<noteq> None"
    using assms by (simp add: rejects_exclusive_def requested_def)
  then obtain t where "fw [[''attach'', ''detach'']] [[''attach'', ''server_id'']] m = Some t"
    by blast
  hence "main_block_storage fw has_sdk m cn = (FailJson t, [])"
    unfolding main_block_storage_def
    by (simp add: finish_eq post_rules AnsibleModule_def)
  thus ?thesis by blast
qed

lemma shared_attach_detach_rejected:
  assumes "rejects_exclusive fw"
    and "truthy (params m ''attach'')"
    and "truthy (params m ''detach'')"
  shows "\<exists>t. main_shared_storage fw has_sdk m cn = (FailJson t, [])"
proof -
  have "fw [[''attach'', ''detach'']] [[''attach'', ''servers''], [''detach'', ''server_id'']] m
      \<noteq> None"
    using assms by (simp add: rejects_exclusive_def requested_def)
  then obtain t where
    "fw [[''attach'', ''detach'']] [[''attach'', ''servers''], [''detach'', ''server_id'']] m
      = Some t"
    by blast
  hence "main_shared_storage fw has_sdk m cn = (FailJson t, [])"
    unfolding main_shared_storage_def
    by (simp add: finish_eq post_rules AnsibleModule_def)
  thus ?thesis by blast
qed

text \<open>
  C4: both storage modules hand the group \<open>attach\<close>, \<open>detach\<close> to the framework as
  mutually exclusive, before anything else. With a framework that rejects a parameter
  set in which two members of such a group are set, a run with \<open>attach\<close> and \<open>detach\<close>
  both true ends in \<open>fail_json\<close> with the empty trace: it is rejected before any
  remote call.
\<close>

theorem attach_and_detach_rejected:
  assumes "rejects_exclusive fw"
    and "truthy (params m ''attach'')"
    and "truthy (params m ''detach'')"
  shows "(\<exists>t. main_block_storage fw has_sdk m cn = (FailJson t, [])) \<and>
     (\<exists>t. main_shared_storage fw has_sdk m cn = (FailJson t, []))"
  using block_attach_detach_rejected [OF assms] shared_attach_detach_rejected [OF assms]
  by blast

theorem attach_and_detach_rejected_witness:
  "(\<exists>t. main_block_storage exclusive_only True
      (invocation False ([(''state'', PStr ''update''), (''block_storage'', PStr ''r1''),
         (''attach'', PBool True), (''detach'', PBool True)] @ block_base)) answer_found =
      (FailJson t, [])) \<and>
   (\<exists>t. main_shared_storage exclusive_only True
      (invocation False ([(''state'', PStr ''update''), (''shared_storage'', PStr ''r1''),
         (''attach'', PBool True), (''detach'', PBool True)] @ shared_base)) answer_found =
      (FailJson t, []))"
  using exclusive_only_rejects
    attach_and_detach_rejected [where fw = exclusive_only and has_sdk = True
      and cn = answer_found and m = "invocation False ([(''state'', PStr ''update''),
         (''block_storage'', PStr ''r1''), (''attach'', PBool True), (''detach'', PBool True)]
         @ block_base)"]
    attach_and_detach_rejected [where fw = exclusive_only and has_sdk = True
      and cn = answer_found and m = "invocation False ([(''state'', PStr ''update''),
         (''shared_storage'', PStr ''r1''), (''attach'', PBool True), (''detach'', PBool True)]
         @ shared_base)"]
  by (simp add: invocation_def params_of_def block_base_def shared_base_def)

section \<open>Waiting for completion\<close>





end
